theory Spec2Isabelle
  imports Complex_Main "HOL-Library.Log_Nat"
begin

section \<open>Python values used by \<open>desafio_dio.py\<close>\<close>

subsection \<open>\<open>float\<close>: IEEE 754 binary64\<close>

text \<open>
  Every amount of the program (\<open>valor\<close>, \<open>saldo\<close>, \<open>limite\<close>) is a Python \<open>float\<close>:
  the driver reads it with \<open>float(input(...))\<close>, which also accepts \<open>nan\<close>, \<open>inf\<close> and
  \<open>-inf\<close>. A float is modelled by its exact value: a finite double is the rational it
  denotes (\<open>Finite 0\<close> is \<open>+0.0\<close>, \<open>NegZero\<close> is \<open>-0.0\<close>), next to the two infinities and
  NaN. Arithmetic rounds to the nearest double, ties to even, as the hardware does.
\<close>

datatype pyfloat = Finite rat | NegZero | PInf | NInf | NaN

definition pow2 :: "int \<Rightarrow> rat" where
  "pow2 k = (if 0 \<le> k then 2 ^ nat k else 1 / 2 ^ nat (- k))"

text \<open>Round a non-negative rational to the nearest integer, ties to even.\<close>

definition rne :: "rat \<Rightarrow> int" where
  "rne q = (let f = \<lfloor>q\<rfloor>; d = q - of_int f
            in if d < 1 / 2 then f
               else if 1 / 2 < d then f + 1
               else if even f then f else f + 1)"

text \<open>The binary exponent of a positive rational \<open>a\<close>: \<open>2 ^ e \<le> a < 2 ^ (e + 1)\<close>.\<close>

definition ilog2 :: "rat \<Rightarrow> int" where
  "ilog2 a = (case quotient_of a of (p, q) \<Rightarrow>
               let e0 = bitlen p - bitlen q
               in if pow2 e0 \<le> a then e0 else e0 - 1)"

text \<open>
  The double nearest to an exact result \<open>x\<close>: 53 significant bits, exponents from
  \<open>-1022\<close> (below it the spacing stays \<open>2 ^ -1074\<close>: subnormals), overflow to an infinity
  from \<open>2 ^ 1024 - 2 ^ 970\<close> on. An exact zero result is \<open>+0.0\<close>.
\<close>

definition round_double :: "rat \<Rightarrow> pyfloat" where
  "round_double x =
     (if x = 0 then Finite 0
      else let a = \<bar>x\<bar>;
               e = max (ilog2 a) (- 1022);
               u = pow2 (e - 52);
               r = of_int (rne (a / u)) * u
           in if pow2 1024 \<le> r then (if 0 < x then PInf else NInf)
              else if r = 0 then (if 0 < x then Finite 0 else NegZero)
              else Finite (if 0 < x then r else - r))"

text \<open>
  The rationals that are values of finite doubles: an integer below \<open>2 ^ 53\<close> times a
  power of two between \<open>2 ^ -1074\<close> and \<open>2 ^ 971\<close>.
\<close>

definition is_double :: "rat \<Rightarrow> bool" where
  "is_double x = (\<exists>m e. \<bar>x\<bar> = rat_of_int m * pow2 e \<and> 0 \<le> m \<and> m < 2 ^ 53 \<and>
                    - 1074 \<le> e \<and> e \<le> 971)"

text \<open>The value of a finite float (zero for the others, where it is not used).\<close>

fun finite_val :: "pyfloat \<Rightarrow> rat" where
  "finite_val (Finite x) = x"
| "finite_val _ = 0"

fun py_neg :: "pyfloat \<Rightarrow> pyfloat" where
  "py_neg (Finite x) = (if x = 0 then NegZero else Finite (- x))"
| "py_neg NegZero = Finite 0"
| "py_neg PInf = NInf"
| "py_neg NInf = PInf"
| "py_neg NaN = NaN"

text \<open>\<open>a + b\<close> on floats.\<close>

fun py_add :: "pyfloat \<Rightarrow> pyfloat \<Rightarrow> pyfloat" where
  "py_add NaN _ = NaN"
| "py_add _ NaN = NaN"
| "py_add PInf NInf = NaN"
| "py_add NInf PInf = NaN"
| "py_add PInf _ = PInf"
| "py_add _ PInf = PInf"
| "py_add NInf _ = NInf"
| "py_add _ NInf = NInf"
| "py_add NegZero NegZero = NegZero"
| "py_add a b = round_double (finite_val a + finite_val b)"

text \<open>\<open>a - b\<close> on floats: IEEE subtraction is addition of the negated operand.\<close>

definition py_sub :: "pyfloat \<Rightarrow> pyfloat \<Rightarrow> pyfloat" where
  "py_sub a b = py_add a (py_neg b)"

text \<open>
  The comparisons \<open>a < b\<close> and \<open>a <= b\<close>: every comparison with NaN is false, and
  \<open>-0.0\<close> compares as zero. Python compares a float with the int literal \<open>0\<close> by value,
  which is the comparison with \<open>Finite 0\<close>.
\<close>

fun py_lt :: "pyfloat \<Rightarrow> pyfloat \<Rightarrow> bool" where
  "py_lt NaN _ = False"
| "py_lt _ NaN = False"
| "py_lt PInf _ = False"
| "py_lt _ NInf = False"
| "py_lt NInf _ = True"
| "py_lt _ PInf = True"
| "py_lt a b = (finite_val a < finite_val b)"

fun py_le :: "pyfloat \<Rightarrow> pyfloat \<Rightarrow> bool" where
  "py_le NaN _ = False"
| "py_le _ NaN = False"
| "py_le NInf _ = True"
| "py_le _ PInf = True"
| "py_le PInf _ = False"
| "py_le _ NInf = False"
| "py_le a b = (finite_val a \<le> finite_val b)"

definition py_gt :: "pyfloat \<Rightarrow> pyfloat \<Rightarrow> bool" where
  "py_gt a b = py_lt b a"

definition py_ge :: "pyfloat \<Rightarrow> pyfloat \<Rightarrow> bool" where
  "py_ge a b = py_le b a"

subsection \<open>\<open>str\<close> and the format specification \<open>.2f\<close>\<close>

text \<open>
  A \<open>str\<close> is a list of code points; a \<open>char\<close> stands for the code point of its number,
  so \<open>CHR 0xF3\<close> is the letter o with acute accent of the label of a deposit, \<open>CHR 0x09\<close>
  a tab and \<open>CHR 0x0A\<close> a newline. Code points from 256 on are outside the model.
\<close>

definition digit_char :: "nat \<Rightarrow> char" where
  "digit_char n = ''0123456789'' ! (n mod 10)"

function show_nat :: "nat \<Rightarrow> string" where
  "show_nat n = (if n < 10 then [digit_char n]
                 else show_nat (n div 10) @ [digit_char (n mod 10)])"
  by pat_completeness auto
termination
  by (relation "measure (\<lambda>n. n)") auto

declare show_nat.simps [simp del]

text \<open>
  \<open>format(x, ".2f")\<close>: the exact value of the double, rounded to two decimals (ties to
  even), with the sign of the double; the specials print as words.
\<close>

fun fmt2f :: "pyfloat \<Rightarrow> string" where
  "fmt2f NaN = ''nan''"
| "fmt2f PInf = ''inf''"
| "fmt2f NInf = ''-inf''"
| "fmt2f NegZero = ''-0.00''"
| "fmt2f (Finite x) =
     (let n = nat (rne (\<bar>x\<bar> * 100))
      in (if x < 0 then ''-'' else '''') @ show_nat (n div 100) @ ''.'' @
         [digit_char (n mod 100 div 10), digit_char (n mod 10)])"

text \<open>\<open>sep.join(xs)\<close>.\<close>

fun str_join :: "string \<Rightarrow> string list \<Rightarrow> string" where
  "str_join sep [] = []"
| "str_join sep [x] = x"
| "str_join sep (x # y # ys) = x @ sep @ str_join sep (y # ys)"

text \<open>\<open>s.strip()\<close>: the white space of \<open>str.isspace\<close> among the code points below 256.\<close>

definition py_isspace :: "char \<Rightarrow> bool" where
  "py_isspace ch = (let n = (of_char ch :: nat)
                    in (9 \<le> n \<and> n \<le> 13) \<or> (28 \<le> n \<and> n \<le> 32) \<or> n = 133 \<or> n = 160)"

definition strip :: "string \<Rightarrow> string" where
  "strip s = rev (dropWhile py_isspace (rev (dropWhile py_isspace s)))"

text \<open>The values a result dictionary of \<open>executar_transacao\<close> holds.\<close>

datatype pyval = PyBool bool | PyNone | PyStr string

section \<open>The program\<close>

subsection \<open>\<open>Historico\<close>\<close>

record Historico =
  registros :: "string list"

definition registrar :: "Historico \<Rightarrow> string \<Rightarrow> Historico" where
  "registrar h linha = h\<lparr>registros := registros h @ [linha]\<rparr>"

definition esta_vazio :: "Historico \<Rightarrow> bool" where
  "esta_vazio h = (length (registros h) = 0)"

definition texto :: "Historico \<Rightarrow> string" where
  "texto h = (if esta_vazio h then []
              else str_join [CHR 0x0A] (registros h) @ [CHR 0x0A])"

subsection \<open>\<open>Cliente\<close>, \<open>PessoaFisica\<close> and \<open>Conta\<close>\<close>

record Cliente =
  nome :: string
  endereco :: string

record PessoaFisica = Cliente +
  cpf :: string
  data_nascimento :: string

text \<open>
  The field \<open>cliente\<close> is annotated \<open>Cliente\<close> in the source; the one caller of the
  constructor, \<open>criar_conta\<close>, passes a \<open>PessoaFisica\<close>.
\<close>

record Conta =
  agencia :: string
  numero_conta :: int
  cliente :: PessoaFisica
  saldo :: pyfloat
  limite :: pyfloat
  limite_saques :: int
  numero_saques :: int
  historico :: Historico

text \<open>
  \<open>Conta.__init__\<close>; its defaults \<open>saldo = 0.0\<close>, \<open>limite = 500.0\<close> and
  \<open>limite_saques = 3\<close> are written out where \<open>criar_conta\<close> calls it.
\<close>

definition Conta_init :: "string \<Rightarrow> int \<Rightarrow> PessoaFisica \<Rightarrow> pyfloat \<Rightarrow> pyfloat \<Rightarrow> int \<Rightarrow> Conta" where
  "Conta_init ag numero cli saldo0 limite0 limite_saques0 =
     \<lparr>agencia = ag, numero_conta = numero, cliente = cli, saldo = saldo0, limite = limite0,
      limite_saques = limite_saques0, numero_saques = 0, historico = \<lparr>registros = []\<rparr>\<rparr>"

subsection \<open>\<open>Transacao\<close>: \<open>Deposito\<close> and \<open>Saque\<close>\<close>

text \<open>
  \<open>Outra\<close> stands for an instance of any other subclass of \<open>Transacao\<close>, which
  \<open>executar_transacao\<close> does not recognise.
\<close>

datatype Transacao = Deposito pyfloat | Saque pyfloat | Outra

definition Deposito_descricao :: "pyfloat \<Rightarrow> string" where
  "Deposito_descricao valor =
     ''Dep'' @ [CHR 0xF3] @ ''sito:'' @ [CHR 0x09] @ ''R$ '' @ fmt2f valor"

definition Saque_descricao :: "pyfloat \<Rightarrow> string" where
  "Saque_descricao valor = ''Saque:'' @ [CHR 0x09, CHR 0x09] @ ''R$ '' @ fmt2f valor"

text \<open>\<open>Deposito.executar\<close>: the returned flag and the account as the call leaves it.\<close>

definition Deposito_executar :: "pyfloat \<Rightarrow> Conta \<Rightarrow> bool \<times> Conta" where
  "Deposito_executar valor c =
     (if py_gt valor (Finite 0)
      then (True, c\<lparr>saldo := py_add (saldo c) valor,
                     historico := registrar (historico c) (Deposito_descricao valor)\<rparr>)
      else (False, c))"

text \<open>\<open>Saque.executar\<close>: the returned pair \<open>(flag, motivo)\<close> and the account.\<close>

definition Saque_executar :: "pyfloat \<Rightarrow> Conta \<Rightarrow> (bool \<times> string option) \<times> Conta" where
  "Saque_executar valor c =
     (if py_le valor (Finite 0) then ((False, Some ''valor_invalido''), c)
      else if py_gt valor (saldo c) then ((False, Some ''saldo_insuficiente''), c)
      else if py_gt valor (limite c) then ((False, Some ''excede_limite''), c)
      else if numero_saques c \<ge> limite_saques c
        then ((False, Some ''excede_numero_saques''), c)
      else ((True, None),
            c\<lparr>saldo := py_sub (saldo c) valor,
              numero_saques := numero_saques c + 1,
              historico := registrar (historico c) (Saque_descricao valor)\<rparr>))"

text \<open>
  \<open>Conta.executar_transacao\<close>: the result dictionary and the account. A deposit's
  dictionary has the key \<open>sucesso\<close> only.
\<close>

type_synonym resultado = "string \<rightharpoonup> pyval"

definition motivo_val :: "string option \<Rightarrow> pyval" where
  "motivo_val m = (case m of None \<Rightarrow> PyNone | Some s \<Rightarrow> PyStr s)"

fun executar_transacao :: "Conta \<Rightarrow> Transacao \<Rightarrow> resultado \<times> Conta" where
  "executar_transacao c (Deposito valor) =
     (case Deposito_executar valor c of
        (sucesso, c') \<Rightarrow> ([''sucesso'' \<mapsto> PyBool sucesso], c'))"
| "executar_transacao c (Saque valor) =
     (case Saque_executar valor c of
        ((sucesso, motivo), c') \<Rightarrow>
          ([''sucesso'' \<mapsto> PyBool sucesso, ''motivo'' \<mapsto> motivo_val motivo], c'))"
| "executar_transacao c Outra =
     ([''sucesso'' \<mapsto> PyBool False, ''motivo'' \<mapsto> PyStr ''transacao_desconhecida''], c)"

text \<open>The test \<open>resultado["sucesso"]\<close> of the callers.\<close>

definition sucedeu :: "resultado \<Rightarrow> bool" where
  "sucedeu r = (r ''sucesso'' = Some (PyBool True))"

text \<open>
  Successive calls \<open>conta.executar_transacao(t)\<close> on one account, for \<open>t\<close> in \<open>ts\<close>:
  the results in order and the account after the last call.
\<close>

fun executar_todas :: "Conta \<Rightarrow> Transacao list \<Rightarrow> resultado list \<times> Conta" where
  "executar_todas c [] = ([], c)"
| "executar_todas c (t # ts) =
     (case executar_transacao c t of
        (r, c') \<Rightarrow> (case executar_todas c' ts of (rs, c'') \<Rightarrow> (r # rs, c'')))"

subsection \<open>Users and accounts\<close>

fun filtrar_usuario_por_cpf :: "string \<Rightarrow> PessoaFisica list \<Rightarrow> PessoaFisica option" where
  "filtrar_usuario_por_cpf alvo [] = None"
| "filtrar_usuario_por_cpf alvo (u # us) =
     (if cpf u = alvo then Some u else filtrar_usuario_por_cpf alvo us)"

definition msg_cpf_existente :: string where
  "msg_cpf_existente =
     [CHR 0x0A] @ ''@@@ J'' @ [CHR 0xE1] @ '' existe usu'' @ [CHR 0xE1] @ ''rio com esse CPF! @@@''"

definition msg_usuario_criado :: string where
  "msg_usuario_criado = ''=== Usu'' @ [CHR 0xE1] @ ''rio criado com sucesso! ===''"

definition msg_conta_criada :: string where
  "msg_conta_criada = [CHR 0x0A] @ ''=== Conta criada com sucesso! ===''"

definition msg_usuario_nao_encontrado :: string where
  "msg_usuario_nao_encontrado =
     [CHR 0x0A] @ ''@@@ Usu'' @ [CHR 0xE1] @ ''rio n'' @ [CHR 0xE3] @
     ''o encontrado, fluxo de cria'' @ [CHR 0xE7, CHR 0xE3] @ ''o de conta encerrado! @@@''"

text \<open>
  \<open>criar_usuario\<close>. The lines the user types at the four prompts are the arguments
  \<open>e_cpf\<close>, \<open>e_nome\<close>, \<open>e_data\<close> and \<open>e_endereco\<close> (the last three are read only when the
  CPF is new). The result is the list \<open>usuarios\<close> as the call leaves it and the lines it
  prints. An instance of \<open>PessoaFisica\<close> is always true in a condition, so the test of
  the source is whether the search found a user.
\<close>

definition criar_usuario ::
    "string \<Rightarrow> string \<Rightarrow> string \<Rightarrow> string \<Rightarrow> PessoaFisica list \<Rightarrow> PessoaFisica list \<times> string list" where
  "criar_usuario e_cpf e_nome e_data e_endereco usuarios =
     (case filtrar_usuario_por_cpf (strip e_cpf) usuarios of
        Some u \<Rightarrow> (usuarios, [msg_cpf_existente])
      | None \<Rightarrow>
          (usuarios @ [\<lparr>nome = strip e_nome, endereco = strip e_endereco,
                         cpf = strip e_cpf, data_nascimento = strip e_data\<rparr>],
           [msg_usuario_criado]))"

text \<open>
  \<open>criar_conta\<close>, with the line typed at its prompt as \<open>e_cpf\<close>: the returned account
  (\<open>None\<close> as in the source) and the lines it prints.
\<close>

definition criar_conta ::
    "string \<Rightarrow> string \<Rightarrow> int \<Rightarrow> PessoaFisica list \<Rightarrow> Conta option \<times> string list" where
  "criar_conta e_cpf ag numero usuarios =
     (case filtrar_usuario_por_cpf (strip e_cpf) usuarios of
        Some usuario \<Rightarrow>
          (Some (Conta_init ag numero usuario (Finite 0) (Finite 500) 3), [msg_conta_criada])
      | None \<Rightarrow> (None, [msg_usuario_nao_encontrado]))"

subsection \<open>Accounts used as concrete examples\<close>

definition titular :: PessoaFisica where
  "titular = \<lparr>nome = ''Ana'', endereco = ''Rua 1'', cpf = ''123'',
               data_nascimento = ''01-01-2000''\<rparr>"

text \<open>The account \<open>criar_conta\<close> opens for \<open>titular\<close>, and one with a balance of 700.\<close>

definition conta_nova :: Conta where
  "conta_nova = Conta_init ''0001'' 1 titular (Finite 0) (Finite 500) 3"

definition conta_700 :: Conta where
  "conta_700 = Conta_init ''0001'' 1 titular (Finite 700) (Finite 500) 3"

subsection \<open>The account invariant\<close>

text \<open>A float that is neither an infinity nor NaN, and a transaction with such an amount.\<close>

fun is_finite :: "pyfloat \<Rightarrow> bool" where
  "is_finite (Finite x) = True"
| "is_finite NegZero = True"
| "is_finite _ = False"

fun valor_finito :: "Transacao \<Rightarrow> bool" where
  "valor_finito (Deposito v) = is_finite v"
| "valor_finito (Saque v) = is_finite v"
| "valor_finito Outra = True"

text \<open>The invariant: \<open>saldo >= 0\<close> and \<open>numero_saques <= limite_saques\<close>.\<close>

definition conta_ok :: "Conta \<Rightarrow> bool" where
  "conta_ok c = (py_ge (saldo c) (Finite 0) \<and> numero_saques c \<le> limite_saques c)"

subsection \<open>Reading digits back\<close>

text \<open>The number a string of decimal digits spells.\<close>

definition digit_of :: "char \<Rightarrow> nat" where
  "digit_of ch = of_char ch - 48"

definition read_nat :: "string \<Rightarrow> nat" where
  "read_nat s = foldl (\<lambda>acc ch. 10 * acc + digit_of ch) 0 s"

section \<open>Auxiliary facts\<close>

subsection \<open>Floats\<close>

lemma py_gt_zero_not_le: "py_gt v (Finite 0) \<Longrightarrow> \<not> py_le v (Finite 0)"
  by (cases v) (auto simp: py_gt_def)

lemma py_le_zero_not_gt: "py_le v (Finite 0) \<Longrightarrow> \<not> py_gt v (Finite 0)"
  by (cases v) (auto simp: py_gt_def)

lemma py_lt_irrefl: "\<not> py_lt a a"
  by (cases a) simp_all

lemma py_le_not_gt: "py_le a b \<Longrightarrow> \<not> py_gt a b"
  by (cases a; cases b) (auto simp: py_gt_def)

lemma py_sub_self: "py_sub (Finite x) (Finite x) = Finite 0"
  by (simp add: py_sub_def round_double_def)

lemma pow2_powi: "pow2 k = 2 powi k"
  by (simp add: pow2_def power_int_def inverse_eq_divide power_one_over)

lemma pow2_pos: "0 < pow2 k"
  by (simp add: pow2_def)

lemma pow2_add: "pow2 (j + k) = pow2 j * pow2 k"
  by (simp add: pow2_powi power_int_add)

lemma pow2_mono: "j \<le> k \<Longrightarrow> pow2 j \<le> pow2 k"
  by (simp add: pow2_powi power_int_increasing)

lemma pow2_nat: "0 \<le> k \<Longrightarrow> pow2 k = rat_of_int (2 ^ nat k)"
  by (simp add: pow2_def)

lemma rne_of_int: "rne (rat_of_int k) = k"
  by (simp add: rne_def)

lemma rne_nonneg: "0 \<le> q \<Longrightarrow> 0 \<le> rne q"
  by (simp add: rne_def Let_def)

lemma rne_close: "\<bar>rat_of_int (rne q) - q\<bar> \<le> 1 / 2"
proof -
  have "rat_of_int \<lfloor>q\<rfloor> \<le> q" "q < rat_of_int \<lfloor>q\<rfloor> + 1"
    by linarith+
  then show ?thesis
    by (auto simp: rne_def Let_def)
qed

text \<open>The exponent \<open>ilog2\<close> finds is not too large.\<close>

lemma ilog2_le:
  assumes "0 < a"
  shows "pow2 (ilog2 a) \<le> a"
proof -
  obtain p q where pq: "quotient_of a = (p, q)"
    by (cases "quotient_of a")
  then have q: "0 < q" and a: "a = rat_of_int p / rat_of_int q"
    by (simp_all add: quotient_of_denom_pos quotient_of_div)
  with assms have p: "0 < p"
    by (simp add: zero_less_divide_iff)
  define e0 where "e0 = bitlen p - bitlen q"
  show ?thesis
  proof (cases "pow2 e0 \<le> a")
    case True
    then show ?thesis
      by (simp add: ilog2_def pq e0_def Let_def)
  next
    case False
    have bp: "1 \<le> bitlen p" and bq: "1 \<le> bitlen q"
      using p q bitlen_eq_zero_iff [of p] bitlen_eq_zero_iff [of q] bitlen_nonneg [of p]
        bitlen_nonneg [of q]
      by linarith+
    from bitlen_bounds [OF p] have "2 ^ nat (bitlen p - 1) \<le> p" ..
    then have "rat_of_int (2 ^ nat (bitlen p - 1)) \<le> rat_of_int p"
      by (simp only: of_int_le_iff)
    with bp have lo: "pow2 (bitlen p - 1) \<le> rat_of_int p"
      by (simp add: pow2_nat)
    from bitlen_bounds [OF q] have "q < 2 ^ nat (bitlen q)" ..
    then have "rat_of_int q < rat_of_int (2 ^ nat (bitlen q))"
      by (simp only: of_int_less_iff)
    with bq have hi: "rat_of_int q \<le> pow2 (bitlen q)"
      by (simp add: pow2_nat)
    have "pow2 (e0 - 1) * pow2 (bitlen q) = pow2 (bitlen p - 1)"
      by (simp add: pow2_add [symmetric] e0_def)
    moreover have "pow2 (e0 - 1) * rat_of_int q \<le> pow2 (e0 - 1) * pow2 (bitlen q)"
      using hi pow2_pos [of "e0 - 1"] by simp
    ultimately have "pow2 (e0 - 1) * rat_of_int q \<le> rat_of_int p"
      using lo by simp
    with q have "pow2 (e0 - 1) \<le> a"
      by (simp add: a pos_le_divide_eq)
    with False show ?thesis
      by (simp add: ilog2_def pq e0_def Let_def)
  qed
qed

text \<open>
  Rounding leaves the value of a double as it is: an operation whose exact result is a
  double returns that result.
\<close>

lemma round_double_exact:
  assumes "is_double x"
  shows "round_double x = Finite x"
proof (cases "x = 0")
  case True
  then show ?thesis
    by (simp add: round_double_def)
next
  case False
  from assms obtain m e where me: "\<bar>x\<bar> = rat_of_int m * pow2 e" "0 \<le> m" "m < 2 ^ 53"
    "- 1074 \<le> e" "e \<le> 971"
    unfolding is_double_def by blast
  define a where "a = \<bar>x\<bar>"
  define E where "E = max (ilog2 a) (- 1022)"
  define u where "u = pow2 (E - 52)"
  have a_pos: "0 < a"
    using False by (simp add: a_def)
  have "rat_of_int m < rat_of_int (2 ^ 53)"
    using me(3) by (simp only: of_int_less_iff)
  then have "rat_of_int m < pow2 53"
    by (simp add: pow2_def)
  then have "a < pow2 53 * pow2 e"
    using pow2_pos [of e] by (simp add: a_def me(1))
  then have a_hi: "a < pow2 (e + 53)"
    by (simp add: pow2_add mult.commute)
  have "ilog2 a < e + 53"
  proof (rule ccontr)
    assume "\<not> ilog2 a < e + 53"
    then have "pow2 (e + 53) \<le> pow2 (ilog2 a)"
      by (simp add: pow2_mono)
    with ilog2_le [OF a_pos] a_hi show False
      by simp
  qed
  with me(4) have E: "E - 52 \<le> e"
    by (simp add: E_def)
  define d where "d = e - (E - 52)"
  have d: "0 \<le> d"
    using E by (simp add: d_def)
  have "pow2 e = pow2 d * u"
    by (simp add: u_def d_def pow2_add [symmetric])
  then have split: "a = rat_of_int m * pow2 d * u"
    by (simp add: a_def me(1))
  then have au: "a / u = rat_of_int (m * 2 ^ nat d)"
    using pow2_pos [of "E - 52"] d by (simp add: u_def pow2_nat)
  have r: "rat_of_int (rne (a / u)) * u = a"
    unfolding au rne_of_int using split d by (simp add: pow2_nat)
  have "a < pow2 (971 + 53)"
    using a_hi pow2_mono [of "e + 53" "971 + 53"] me(5) by simp
  then have lt: "\<not> pow2 1024 \<le> a"
    by simp
  from False lt r a_pos show ?thesis
    by (simp add: round_double_def Let_def a_def [symmetric] E_def [symmetric] u_def [symmetric])
      (simp add: a_def)
qed

lemma is_double_int: "\<bar>k\<bar> < 2 ^ 53 \<Longrightarrow> is_double (rat_of_int k)"
  unfolding is_double_def
  by (rule exI [of _ "\<bar>k\<bar>"], rule exI [of _ 0]) (simp add: pow2_def)

lemma py_add_exact: "is_double (s + x) \<Longrightarrow> py_add (Finite s) (Finite x) = Finite (s + x)"
  by (simp add: round_double_exact)

lemma py_sub_exact:
  "x \<noteq> 0 \<Longrightarrow> is_double (s - x) \<Longrightarrow> py_sub (Finite s) (Finite x) = Finite (s - x)"
  by (simp add: py_sub_def round_double_exact)

text \<open>The doubles of the examples.\<close>

lemma is_double_examples: "is_double 50" "is_double 150" "is_double 600"
  using is_double_int [of 50] is_double_int [of 150] is_double_int [of 600] by simp_all

lemma round_double_examples: "round_double 50 = Finite 50" "round_double 150 = Finite 150"
  "round_double 600 = Finite 600"
  by (simp_all add: round_double_exact is_double_examples)

text \<open>Rounding keeps the sign of a result that is not negative.\<close>

lemma round_double_nonneg: "0 \<le> x \<Longrightarrow> py_le (Finite 0) (round_double x)"
proof -
  assume x: "0 \<le> x"
  define u where "u = pow2 (max (ilog2 \<bar>x\<bar>) (- 1022) - 52)"
  have "0 < u"
    unfolding u_def by (rule pow2_pos)
  with x have "0 \<le> \<bar>x\<bar> / u"
    by simp
  then have "0 \<le> rne (\<bar>x\<bar> / u)"
    by (rule rne_nonneg)
  with \<open>0 < u\<close> have "0 \<le> rat_of_int (rne (\<bar>x\<bar> / u)) * u"
    by simp
  with x show ?thesis
    by (simp add: round_double_def Let_def u_def)
qed

subsection \<open>Strings\<close>

lemma str_join_terminado:
  "xs \<noteq> [] \<Longrightarrow> str_join sep xs @ sep = concat (map (\<lambda>l. l @ sep) xs)"
  by (induction sep xs rule: str_join.induct) simp_all

lemma digit_table:
  "\<forall>k \<in> {..<10::nat}. ''0123456789'' ! k \<in> set ''0123456789'' \<and> digit_of (''0123456789'' ! k) = k"
  by (simp add: lessThan_nat_numeral lessThan_Suc digit_of_def)

lemma digit_char_cases:
  "digit_char n \<in> set ''0123456789'' \<and> digit_of (digit_char n) = n mod 10"
proof -
  have "n mod 10 \<in> {..<10}"
    by simp
  with digit_table show ?thesis
    unfolding digit_char_def by blast
qed

lemma show_nat_digits: "show_nat n \<noteq> [] \<and> set (show_nat n) \<subseteq> set ''0123456789''"
proof (induction n rule: show_nat.induct)
  case (1 n)
  show ?case
  proof (cases "n < 10")
    case True
    then show ?thesis
      using digit_char_cases [of n] by (simp add: show_nat.simps [of n])
  next
    case False
    with 1 show ?thesis
      using digit_char_cases [of "n mod 10"] by (simp add: show_nat.simps [of n])
  qed
qed

lemma read_nat_snoc: "read_nat (s @ [ch]) = 10 * read_nat s + digit_of ch"
  by (simp add: read_nat_def)

lemma read_nat_show_nat: "read_nat (show_nat n) = n"
proof (induction n rule: show_nat.induct)
  case (1 n)
  show ?case
  proof (cases "n < 10")
    case True
    then show ?thesis
      using digit_char_cases [of n] by (simp add: show_nat.simps [of n] read_nat_def)
  next
    case False
    with 1 have "read_nat (show_nat (n div 10)) = n div 10"
      by simp
    with False show ?thesis
      using digit_char_cases [of "n mod 10"]
      by (simp add: show_nat.simps [of n] read_nat_snoc)
  qed
qed

lemma two_decimals_arith:
  "10 * (10 * (n div 100) + n mod 100 div 10 mod 10) + n mod 10 mod 10 = (n::nat)"
proof -
  have m: "n mod 100 = 10 * (n div 10 mod 10) + n mod 10"
    using mod_mult2_eq [of n 10 10] by simp
  have "n mod 100 div 10 = n div 10 mod 10"
    unfolding m by simp
  moreover have "n = 100 * (n div 100) + n mod 100"
    by simp
  ultimately show ?thesis
    using m by simp
qed

lemma read_nat_two_decimals:
  "read_nat (show_nat (n div 100) @ [digit_char (n mod 100 div 10), digit_char (n mod 10)]) = n"
proof -
  have "read_nat ((show_nat (n div 100) @ [digit_char (n mod 100 div 10)]) @ [digit_char (n mod 10)])
      = 10 * (10 * (n div 100) + (n mod 100 div 10) mod 10) + n mod 10 mod 10"
    using digit_char_cases [of "n mod 100 div 10"] digit_char_cases [of "n mod 10"]
    by (simp only: read_nat_snoc read_nat_show_nat)
  also have "\<dots> = n"
    by (rule two_decimals_arith)
  finally show ?thesis
    by simp
qed

lemma hundredth_close:
  fixes y a :: rat
  assumes "\<bar>y - a * 100\<bar> \<le> 1 / 2"
  shows "\<bar>y / 100 - a\<bar> \<le> 1 / 200"
proof -
  from assms have "y - a * 100 \<le> 1 / 2" "- (1 / 2) \<le> y - a * 100"
    by linarith+
  then have "y / 100 - a \<le> 1 / 200" "- (1 / 200) \<le> y / 100 - a"
    by linarith+
  then show ?thesis
    by linarith
qed

text \<open>
  The text of a finite amount: sign, digits, point, two digits; the digits spell the
  amount in hundredths, to the nearest.
\<close>

lemma fmt2f_shape:
  "\<exists>ds d1 d2. fmt2f (Finite x) = (if x < 0 then ''-'' else []) @ ds @ ''.'' @ [d1, d2] \<and>
     ds \<noteq> [] \<and> set (ds @ [d1, d2]) \<subseteq> set ''0123456789'' \<and>
     \<bar>rat_of_nat (read_nat (ds @ [d1, d2])) / 100 - \<bar>x\<bar>\<bar> \<le> 1 / 200"
proof -
  define n where "n = nat (rne (\<bar>x\<bar> * 100))"
  define ds where "ds = show_nat (n div 100)"
  define d1 where "d1 = digit_char (n mod 100 div 10)"
  define d2 where "d2 = digit_char (n mod 10)"
  have shape: "fmt2f (Finite x) = (if x < 0 then ''-'' else []) @ ds @ ''.'' @ [d1, d2]"
    by (simp add: Let_def n_def ds_def d1_def d2_def)
  have digits: "ds \<noteq> []" "set (ds @ [d1, d2]) \<subseteq> set ''0123456789''"
    using show_nat_digits [of "n div 100"] digit_char_cases [of "n mod 100 div 10"]
      digit_char_cases [of "n mod 10"]
    by (simp_all add: ds_def d1_def d2_def)
  have "0 \<le> rne (\<bar>x\<bar> * 100)"
    by (rule rne_nonneg) simp
  then have "rat_of_nat n = rat_of_int (rne (\<bar>x\<bar> * 100))"
    by (simp add: n_def)
  moreover have "read_nat (ds @ [d1, d2]) = n"
    unfolding ds_def d1_def d2_def by (rule read_nat_two_decimals)
  moreover have "\<bar>rat_of_int (rne (\<bar>x\<bar> * 100)) - \<bar>x\<bar> * 100\<bar> \<le> 1 / 2"
    by (rule rne_close)
  ultimately have "\<bar>rat_of_nat (read_nat (ds @ [d1, d2])) / 100 - \<bar>x\<bar>\<bar> \<le> 1 / 200"
    using hundredth_close [of "rat_of_int (rne (\<bar>x\<bar> * 100))" "\<bar>x\<bar>"] by simp
  with shape digits show ?thesis
    by blast
qed

lemma show_nat_1: "show_nat (Suc 0) = ''1''"
  by (simp add: show_nat.simps [of "Suc 0"] digit_char_def)

lemma show_nat_150: "show_nat 150 = ''150''"
  by (simp add: show_nat.simps [of 150] show_nat.simps [of 15] show_nat_1 digit_char_def)

lemma fmt2f_150: "fmt2f (Finite 150) = ''150.00''"
  by (simp add: rne_def Let_def show_nat_150 digit_char_def)

lemma fmt2f_100: "fmt2f (Finite 100) = ''100.00''"
  by (simp add: rne_def Let_def show_nat.simps [of 100] show_nat.simps [of 10] show_nat_1
      digit_char_def)

subsection \<open>One call and a run of calls\<close>

lemma registros_registrar [simp]: "registros (registrar h linha) = registros h @ [linha]"
  by (simp add: registrar_def)

lemma registrar_eq: "registrar h linha = \<lparr>registros = registros h @ [linha]\<rparr>"
  by (simp add: registrar_def)

lemma snd_executar_deposito:
  "snd (executar_transacao c (Deposito v)) = snd (Deposito_executar v c)"
  by (simp split: prod.splits)

lemma snd_executar_saque:
  "snd (executar_transacao c (Saque v)) = snd (Saque_executar v c)"
  by (simp split: prod.splits)

lemma snd_executar_todas_Cons:
  "snd (executar_todas c (t # ts)) = snd (executar_todas (snd (executar_transacao c t)) ts)"
  by (simp split: prod.splits)

lemma falha_atomica:
  "\<not> sucedeu (fst (executar_transacao c t)) \<Longrightarrow> snd (executar_transacao c t) = c"
  by (cases t)
    (auto simp: sucedeu_def Deposito_executar_def Saque_executar_def
      split: prod.splits if_splits)

lemma passo_historico:
  "length (registros (historico (snd (executar_transacao c t)))) =
     length (registros (historico c)) + (if sucedeu (fst (executar_transacao c t)) then 1 else 0)"
  by (cases t)
    (auto simp: sucedeu_def Deposito_executar_def Saque_executar_def
      split: prod.splits if_splits)

lemma historico_executar_todas:
  "length (registros (historico (snd (executar_todas c ts)))) =
     length (registros (historico c)) + length (filter sucedeu (fst (executar_todas c ts)))"
proof (induction ts arbitrary: c)
  case Nil
  show ?case by simp
next
  case (Cons t ts)
  obtain r c' where step: "executar_transacao c t = (r, c')"
    by (cases "executar_transacao c t")
  obtain rs c'' where rest: "executar_todas c' ts = (rs, c'')"
    by (cases "executar_todas c' ts")
  from passo_historico [of c t] step
  have "length (registros (historico c')) =
          length (registros (historico c)) + (if sucedeu r then 1 else 0)"
    by simp
  moreover from Cons.IH [of c'] rest
  have "length (registros (historico c'')) =
          length (registros (historico c')) + length (filter sucedeu rs)"
    by simp
  ultimately show ?case
    using step rest by simp
qed

lemma sucesso_sempre_bool: "\<exists>b. fst (executar_transacao c t) ''sucesso'' = Some (PyBool b)"
  by (cases t) (auto split: prod.splits)

text \<open>No call assigns the ceiling of an account.\<close>

lemma limite_executar_transacao: "limite (snd (executar_transacao c t)) = limite c"
  by (cases t) (auto simp: Deposito_executar_def Saque_executar_def split: prod.splits)

lemma limite_executar_todas: "limite (snd (executar_todas c ts)) = limite c"
proof (induction ts arbitrary: c)
  case Nil
  show ?case by simp
next
  case (Cons t ts)
  from Cons.IH [of "snd (executar_transacao c t)"] limite_executar_transacao [of c t]
  show ?case
    by (simp add: snd_executar_todas_Cons del: executar_todas.simps)
qed

subsection \<open>The invariant for finite amounts\<close>

text \<open>
  A deposit or a withdrawal of a finite amount keeps \<open>conta_ok\<close>: the balance stays at
  or above zero and the withdrawal count at or below its ceiling. So does every run of
  such calls.
\<close>

lemma passo_conta_ok:
  assumes "conta_ok c" and "valor_finito t"
  shows "conta_ok (snd (executar_transacao c t))"
proof (cases t)
  case (Deposito v)
  show ?thesis
  proof (cases "py_gt v (Finite 0)")
    case False
    with assms Deposito show ?thesis
      by (simp add: snd_executar_deposito Deposito_executar_def del: executar_transacao.simps)
  next
    case True
    with assms Deposito obtain x where v: "v = Finite x" and x: "0 < x"
      by (cases v) (auto simp: py_gt_def)
    from assms(1) have "py_le (Finite 0) (py_add (saldo c) v)"
      unfolding v using x
      by (cases "saldo c") (auto simp: conta_ok_def py_ge_def intro: round_double_nonneg)
    with assms(1) True Deposito show ?thesis
      by (simp add: snd_executar_deposito Deposito_executar_def conta_ok_def py_ge_def
          del: executar_transacao.simps)
  qed
next
  case (Saque v)
  show ?thesis
  proof (cases "fst (fst (Saque_executar v c))")
    case False
    then have "snd (Saque_executar v c) = c"
      by (auto simp: Saque_executar_def split: if_splits)
    with assms Saque show ?thesis
      by (simp add: snd_executar_saque del: executar_transacao.simps)
  next
    case True
    then have ok: "\<not> py_le v (Finite 0)" "\<not> py_gt v (saldo c)"
      "numero_saques c < limite_saques c"
      and res: "snd (Saque_executar v c) =
        c\<lparr>saldo := py_sub (saldo c) v, numero_saques := numero_saques c + 1,
          historico := registrar (historico c) (Saque_descricao v)\<rparr>"
      by (auto simp: Saque_executar_def split: if_splits)
    from assms(2) Saque ok(1) obtain x where v: "v = Finite x" and x: "0 < x"
      by (cases v) auto
    from assms(1) ok(2) have "py_le (Finite 0) (py_sub (saldo c) v)"
      unfolding v using x
      by (cases "saldo c")
        (auto simp: conta_ok_def py_ge_def py_gt_def py_sub_def intro: round_double_nonneg)
    with ok(3) res Saque show ?thesis
      by (simp add: snd_executar_saque conta_ok_def py_ge_def del: executar_transacao.simps)
  qed
next
  case Outra
  with assms show ?thesis by simp
qed

lemma invariante_valores_finitos:
  "conta_ok c \<Longrightarrow> list_all valor_finito ts \<Longrightarrow> conta_ok (snd (executar_todas c ts))"
proof (induction ts arbitrary: c)
  case Nil
  then show ?case by simp
next
  case (Cons t ts)
  from Cons.prems have "conta_ok (snd (executar_transacao c t))"
    by (simp add: passo_conta_ok)
  with Cons.IH [of "snd (executar_transacao c t)"] Cons.prems(2) show ?case
    by (simp add: snd_executar_todas_Cons del: executar_todas.simps)
qed

subsection \<open>The search for a user\<close>

lemma filtrar_None_iff: "filtrar_usuario_por_cpf alvo us = None \<longleftrightarrow> alvo \<notin> cpf ` set us"
  by (induction us) auto

lemma filtrar_Some: "filtrar_usuario_por_cpf alvo us = Some u \<Longrightarrow> u \<in> set us \<and> cpf u = alvo"
  by (induction us) (auto split: if_splits)

section \<open>The claims\<close>

text \<open>
  C1. \<open>Saque.executar\<close> makes its checks in a fixed order and stops at the first that
  fails, returning the account as it was: (1) \<open>valor <= 0\<close> gives the reason
  \<open>valor_invalido\<close> (the specification's \<open>invalid_amount\<close>); (2) \<open>valor > saldo\<close> gives
  \<open>saldo_insuficiente\<close> (\<open>insufficient_balance\<close>); (3) \<open>valor > limite\<close> gives
  \<open>excede_limite\<close> (\<open>exceeds_limit\<close>); (4) \<open>numero_saques >= limite_saques\<close> gives
  \<open>excede_numero_saques\<close> (\<open>exceeds_withdrawal_count\<close>). When none fails the call
  succeeds with no reason, the balance becomes \<open>saldo - valor\<close>, the withdrawal count
  grows by one, exactly one description is appended to the history, and nothing else
  of the account changes. The difference is the float difference: the double nearest
  to the exact one, and the exact one whenever that is a double.
\<close>

theorem saque_checks_in_order:
  "(py_le v (Finite 0) \<longrightarrow>
      Saque_executar v c = ((False, Some ''valor_invalido''), c)) \<and>
   (\<not> py_le v (Finite 0) \<and> py_gt v (saldo c) \<longrightarrow>
      Saque_executar v c = ((False, Some ''saldo_insuficiente''), c)) \<and>
   (\<not> py_le v (Finite 0) \<and> \<not> py_gt v (saldo c) \<and> py_gt v (limite c) \<longrightarrow>
      Saque_executar v c = ((False, Some ''excede_limite''), c)) \<and>
   (\<not> py_le v (Finite 0) \<and> \<not> py_gt v (saldo c) \<and> \<not> py_gt v (limite c) \<and>
    numero_saques c \<ge> limite_saques c \<longrightarrow>
      Saque_executar v c = ((False, Some ''excede_numero_saques''), c)) \<and>
   (\<not> py_le v (Finite 0) \<and> \<not> py_gt v (saldo c) \<and> \<not> py_gt v (limite c) \<and>
    numero_saques c < limite_saques c \<longrightarrow>
      Saque_executar v c =
        ((True, None),
         c\<lparr>saldo := py_sub (saldo c) v,
           numero_saques := numero_saques c + 1,
           historico := \<lparr>registros = registros (historico c) @ [Saque_descricao v]\<rparr>\<rparr>)) \<and>
   (saldo c = Finite s \<and> v = Finite x \<and> x \<noteq> 0 \<and> is_double (s - x) \<longrightarrow>
      py_sub (saldo c) v = Finite (s - x))"
  by (simp add: Saque_executar_def registrar_eq py_sub_exact)

theorem saque_checks_in_order_witness:
  "Saque_executar (Finite (- 5)) conta_700 = ((False, Some ''valor_invalido''), conta_700) \<and>
   Saque_executar (Finite 800) conta_700 = ((False, Some ''saldo_insuficiente''), conta_700) \<and>
   Saque_executar (Finite 600) conta_700 = ((False, Some ''excede_limite''), conta_700) \<and>
   Saque_executar (Finite 100) (conta_700\<lparr>numero_saques := 3\<rparr>) =
     ((False, Some ''excede_numero_saques''), conta_700\<lparr>numero_saques := 3\<rparr>) \<and>
   Saque_executar (Finite 100) conta_700 =
     ((True, None),
      conta_700\<lparr>saldo := Finite 600, numero_saques := 1,
        historico := \<lparr>registros = [Saque_descricao (Finite 100)]\<rparr>\<rparr>)"
  using saque_checks_in_order [where v = "Finite (- 5)" and c = conta_700]
    saque_checks_in_order [where v = "Finite 800" and c = conta_700]
    saque_checks_in_order [where v = "Finite 600" and c = conta_700]
    saque_checks_in_order [where v = "Finite 100" and c = "conta_700\<lparr>numero_saques := 3\<rparr>"]
    saque_checks_in_order [where v = "Finite 100" and c = conta_700 and s = 700 and x = 100]
  by (simp add: conta_700_def Conta_init_def py_gt_def is_double_examples)

text \<open>
  C2. For every amount \<open>a > 0\<close>, \<open>Deposito(a).executar\<close> reports success, makes the
  balance \<open>saldo + a\<close> and appends exactly one entry to the history, changing nothing
  else. The sum is the float sum: the double nearest to the exact one, and exactly the
  old balance plus \<open>a\<close> whenever that is a double. For every amount \<open>a <= 0\<close>, a deposit
  and a withdrawal of \<open>a\<close> both report failure and return the account, its balance and
  history included, as it was.
\<close>

theorem deposito_and_nonpositive:
  "(py_gt a (Finite 0) \<longrightarrow>
      Deposito_executar a c =
        (True, c\<lparr>saldo := py_add (saldo c) a,
                 historico := \<lparr>registros = registros (historico c) @ [Deposito_descricao a]\<rparr>\<rparr>)) \<and>
   (saldo c = Finite s \<and> a = Finite x \<and> is_double (s + x) \<longrightarrow>
      py_add (saldo c) a = Finite (s + x)) \<and>
   (py_le a (Finite 0) \<longrightarrow>
      Deposito_executar a c = (False, c) \<and>
      Saque_executar a c = ((False, Some ''valor_invalido''), c))"
  by (simp add: Deposito_executar_def Saque_executar_def registrar_eq py_le_zero_not_gt
      py_add_exact del: py_add.simps)

theorem deposito_and_nonpositive_witness:
  "Deposito_executar (Finite 150) conta_nova =
     (True, conta_nova\<lparr>saldo := Finite 150,
              historico := \<lparr>registros = [Deposito_descricao (Finite 150)]\<rparr>\<rparr>) \<and>
   Deposito_executar (Finite (- 5)) conta_700 = (False, conta_700) \<and>
   Saque_executar (Finite (- 5)) conta_700 = ((False, Some ''valor_invalido''), conta_700)"
  using deposito_and_nonpositive [where a = "Finite 150" and c = conta_nova and s = 0 and x = 150]
    deposito_and_nonpositive [where a = "Finite (- 5)" and c = conta_700]
  by (simp add: conta_nova_def Conta_init_def py_gt_def is_double_examples del: py_add.simps)

text \<open>
  C3. The claim: from a balance at or above zero and a withdrawal count of zero, every
  sequence of deposits and withdrawals keeps \<open>saldo >= 0\<close> and
  \<open>numero_saques <= limite_saques\<close>, a withdrawal that would break either being
  rejected. \<open>Saque.executar\<close> rejects by comparisons only, and every comparison with
  NaN is false: on the account \<open>criar_conta\<close> opens, a withdrawal of NaN (the driver's
  \<open>float(input(...))\<close> reads \<open>nan\<close>) passes all four checks and leaves the balance NaN,
  which is not \<open>>= 0\<close>. After a deposit of 150.00 and that withdrawal, a withdrawal
  of 400.00, more than was ever deposited, succeeds as well. For finite amounts the
  invariant does hold (\<open>invariante_valores_finitos\<close>).
\<close>

theorem saque_nan_invalida_saldo:
  "conta_ok conta_nova \<and> numero_saques conta_nova = 0 \<and>
   fst (Saque_executar NaN conta_nova) = (True, None) \<and>
   saldo (snd (Saque_executar NaN conta_nova)) = NaN \<and>
   \<not> py_ge (saldo (snd (Saque_executar NaN conta_nova))) (Finite 0) \<and>
   map sucedeu (fst (executar_todas conta_nova
      [Deposito (Finite 150), Saque NaN, Saque (Finite 400)])) = [True, True, True] \<and>
   saldo (snd (executar_todas conta_nova
      [Deposito (Finite 150), Saque NaN, Saque (Finite 400)])) = NaN \<and>
   \<not> conta_ok (snd (executar_todas conta_nova
      [Deposito (Finite 150), Saque NaN, Saque (Finite 400)]))"
  by (simp add: conta_nova_def Conta_init_def Deposito_executar_def Saque_executar_def
      py_gt_def py_ge_def py_sub_def sucedeu_def conta_ok_def round_double_examples)

text \<open>
  C4. For every account and every sequence of transactions, the length of the history
  is the number of calls that reported success: an account starts with an empty
  history (\<open>Conta.__init__\<close>), and a run from any account adds one entry per
  success. A call that reports failure returns the account as it was, balance,
  withdrawal count and history included. No call raises: every call returns a
  dictionary whose \<open>sucesso\<close> is a boolean.
\<close>

theorem historico_conta_sucessos:
  "length (registros (historico (snd (executar_todas (Conta_init ag n u s l ls) ts)))) =
     length (filter sucedeu (fst (executar_todas (Conta_init ag n u s l ls) ts))) \<and>
   length (registros (historico (snd (executar_todas c ts)))) =
     length (registros (historico c)) + length (filter sucedeu (fst (executar_todas c ts))) \<and>
   (\<not> sucedeu (fst (executar_transacao c t)) \<longrightarrow> snd (executar_transacao c t) = c) \<and>
   (\<exists>b. fst (executar_transacao c t) ''sucesso'' = Some (PyBool b))"
  using historico_executar_todas [of "Conta_init ag n u s l ls" ts]
    historico_executar_todas [of c ts] falha_atomica [of c t] sucesso_sempre_bool [of c t]
  by (simp add: Conta_init_def)

theorem historico_conta_sucessos_witness:
  "length (registros (historico (snd (executar_todas conta_nova
      [Deposito (Finite 150), Saque (Finite 800), Saque (Finite 100), Outra])))) = 2 \<and>
   length (filter sucedeu (fst (executar_todas conta_nova
      [Deposito (Finite 150), Saque (Finite 800), Saque (Finite 100), Outra]))) = 2 \<and>
   \<not> sucedeu (fst (executar_transacao conta_700 (Saque (Finite 800)))) \<and>
   snd (executar_transacao conta_700 (Saque (Finite 800))) = conta_700"
  using historico_conta_sucessos [where ag = "''0001''" and n = 1 and u = titular
      and s = "Finite 0" and l = "Finite 500" and ls = 3
      and ts = "[Deposito (Finite 150), Saque (Finite 800), Saque (Finite 100), Outra]"
      and c = conta_700 and t = "Saque (Finite 800)"]
  by (simp add: conta_nova_def conta_700_def Conta_init_def Deposito_executar_def
      Saque_executar_def py_gt_def py_sub_def sucedeu_def round_double_examples)

text \<open>
  C5. \<open>Conta.executar_transacao\<close> returns a dictionary with the key \<open>sucesso\<close> and,
  for a withdrawal or an unrecognised transaction, the key \<open>motivo\<close>. A deposit's
  dictionary has no \<open>motivo\<close>; a successful withdrawal's \<open>motivo\<close> is \<open>None\<close>; a failed
  withdrawal's is one of the four reasons; an unrecognised transaction gives failure
  with \<open>transacao_desconhecida\<close> (the specification's \<open>unknown_transaction\<close>) and
  leaves the account as it was. So whenever the call succeeds \<open>motivo\<close> is absent or
  \<open>None\<close>, and a \<open>motivo\<close> that is a string comes only from a failure that is not a
  deposit.
\<close>

theorem resultado_estruturado:
  "fst (executar_transacao c (Deposito v)) ''motivo'' = None \<and>
   dom (fst (executar_transacao c (Deposito v))) = {''sucesso''} \<and>
   (sucedeu (fst (executar_transacao c (Saque v))) \<longrightarrow>
      fst (executar_transacao c (Saque v)) ''motivo'' = Some PyNone) \<and>
   (\<not> sucedeu (fst (executar_transacao c (Saque v))) \<longrightarrow>
      fst (executar_transacao c (Saque v)) ''sucesso'' = Some (PyBool False) \<and>
      (\<exists>m \<in> {''valor_invalido'', ''saldo_insuficiente'', ''excede_limite'',
              ''excede_numero_saques''}.
         fst (executar_transacao c (Saque v)) ''motivo'' = Some (PyStr m))) \<and>
   executar_transacao c Outra =
     ([''sucesso'' \<mapsto> PyBool False, ''motivo'' \<mapsto> PyStr ''transacao_desconhecida''], c) \<and>
   (sucedeu (fst (executar_transacao c t)) \<longrightarrow>
      fst (executar_transacao c t) ''motivo'' = None \<or>
      fst (executar_transacao c t) ''motivo'' = Some PyNone) \<and>
   ((\<exists>m. fst (executar_transacao c t) ''motivo'' = Some (PyStr m)) \<longrightarrow>
      \<not> sucedeu (fst (executar_transacao c t)) \<and> (\<forall>a. t \<noteq> Deposito a))"
proof -
  have dep: "fst (executar_transacao c (Deposito v)) ''motivo'' = None"
    "dom (fst (executar_transacao c (Deposito v))) = {''sucesso''}"
    by (auto split: prod.splits)
  have saq_ok: "sucedeu (fst (executar_transacao c (Saque v))) \<longrightarrow>
      fst (executar_transacao c (Saque v)) ''motivo'' = Some PyNone"
    by (auto simp: sucedeu_def Saque_executar_def motivo_val_def split: prod.splits if_splits)
  have saq_falha: "\<not> sucedeu (fst (executar_transacao c (Saque v))) \<longrightarrow>
      fst (executar_transacao c (Saque v)) ''sucesso'' = Some (PyBool False) \<and>
      (\<exists>m \<in> {''valor_invalido'', ''saldo_insuficiente'', ''excede_limite'',
              ''excede_numero_saques''}.
         fst (executar_transacao c (Saque v)) ''motivo'' = Some (PyStr m))"
    by (simp add: sucedeu_def Saque_executar_def motivo_val_def)
  have geral1: "sucedeu (fst (executar_transacao c t)) \<longrightarrow>
      fst (executar_transacao c t) ''motivo'' = None \<or>
      fst (executar_transacao c t) ''motivo'' = Some PyNone"
    by (cases t)
      (auto simp: sucedeu_def Saque_executar_def motivo_val_def split: prod.splits if_splits)
  have geral2: "(\<exists>m. fst (executar_transacao c t) ''motivo'' = Some (PyStr m)) \<longrightarrow>
      \<not> sucedeu (fst (executar_transacao c t)) \<and> (\<forall>a. t \<noteq> Deposito a)"
    by (cases t)
      (auto simp: sucedeu_def Saque_executar_def motivo_val_def split: prod.splits if_splits)
  from dep saq_ok saq_falha geral1 geral2 show ?thesis
    by simp
qed

theorem resultado_estruturado_witness:
  "sucedeu (fst (executar_transacao conta_700 (Saque (Finite 100)))) \<and>
   fst (executar_transacao conta_700 (Saque (Finite 100))) ''motivo'' = Some PyNone \<and>
   \<not> sucedeu (fst (executar_transacao conta_700 (Saque (Finite 800)))) \<and>
   fst (executar_transacao conta_700 (Saque (Finite 800))) ''motivo'' =
     Some (PyStr ''saldo_insuficiente'') \<and>
   fst (executar_transacao conta_700 (Deposito (Finite 150))) ''motivo'' = None \<and>
   fst (executar_transacao conta_700 Outra) ''motivo'' = Some (PyStr ''transacao_desconhecida'')"
  using resultado_estruturado [where c = conta_700 and v = "Finite 100" and t = "Saque (Finite 100)"]
    resultado_estruturado [where c = conta_700 and v = "Finite 800" and t = "Saque (Finite 800)"]
    resultado_estruturado [where c = conta_700 and v = "Finite 150" and t = Outra]
  by (simp add: conta_700_def Conta_init_def Saque_executar_def py_gt_def sucedeu_def
      motivo_val_def)

text \<open>
  C6. \<open>criar_conta\<close>: when no registered user has the CPF typed (stripped of white
  space), it returns no account and prints that the user was not found (the
  specification's \<open>person_not_found\<close>); otherwise it returns a new account of the first
  user with that CPF, with the given branch and number, balance 0.0, ceiling 500.0, at
  most 3 withdrawals, a withdrawal count of 0 and an empty history.
\<close>

theorem criar_conta_abre_ou_recusa:
  "(strip e \<notin> cpf ` set us \<longrightarrow>
      criar_conta e ag n us = (None, [msg_usuario_nao_encontrado])) \<and>
   (strip e \<in> cpf ` set us \<longrightarrow>
      (\<exists>u. filtrar_usuario_por_cpf (strip e) us = Some u \<and> u \<in> set us \<and> cpf u = strip e \<and>
         criar_conta e ag n us =
           (Some \<lparr>agencia = ag, numero_conta = n, cliente = u, saldo = Finite 0,
                   limite = Finite 500, limite_saques = 3, numero_saques = 0,
                   historico = \<lparr>registros = []\<rparr>\<rparr>,
            [msg_conta_criada])))"
proof (cases "filtrar_usuario_por_cpf (strip e) us")
  case None
  then show ?thesis
    using filtrar_None_iff [of "strip e" us] by (simp add: criar_conta_def)
next
  case (Some u)
  then have "u \<in> set us" "cpf u = strip e"
    using filtrar_Some by blast+
  moreover have "strip e \<in> cpf ` set us"
    using Some filtrar_None_iff [of "strip e" us] by simp
  ultimately show ?thesis
    using Some by (auto simp: criar_conta_def Conta_init_def)
qed

theorem criar_conta_abre_ou_recusa_witness:
  "criar_conta ''999'' ''0001'' 1 [titular] = (None, [msg_usuario_nao_encontrado]) \<and>
   criar_conta '' 123 '' ''0001'' 7 [titular] =
     (Some \<lparr>agencia = ''0001'', numero_conta = 7, cliente = titular, saldo = Finite 0,
             limite = Finite 500, limite_saques = 3, numero_saques = 0,
             historico = \<lparr>registros = []\<rparr>\<rparr>,
      [msg_conta_criada])"
  using criar_conta_abre_ou_recusa [where e = "''999''" and us = "[titular]" and ag = "''0001''"
      and n = 1]
    criar_conta_abre_ou_recusa [where e = "'' 123 ''" and us = "[titular]" and ag = "''0001''"
      and n = 7]
  by (simp add: strip_def py_isspace_def titular_def)

text \<open>
  C7. \<open>criar_usuario\<close>: when a registered user already has the CPF typed, it prints
  that the CPF exists (the duplicate signal) and leaves the list, and so its length,
  as it was; otherwise it appends exactly one new \<open>PessoaFisica\<close> with that CPF.
  Registering the same CPF a second time always takes the first branch.
\<close>

theorem criar_usuario_rejeita_duplicado:
  "(strip e \<in> cpf ` set us \<longrightarrow>
      criar_usuario e en ed ee us = (us, [msg_cpf_existente])) \<and>
   (strip e \<notin> cpf ` set us \<longrightarrow>
      criar_usuario e en ed ee us =
        (us @ [\<lparr>nome = strip en, endereco = strip ee, cpf = strip e,
                  data_nascimento = strip ed\<rparr>],
         [msg_usuario_criado])) \<and>
   criar_usuario e en' ed' ee' (fst (criar_usuario e en ed ee us)) =
     (fst (criar_usuario e en ed ee us), [msg_cpf_existente])"
proof -
  have novo: "strip e \<notin> cpf ` set us \<Longrightarrow>
      criar_usuario e en ed ee us =
        (us @ [\<lparr>nome = strip en, endereco = strip ee, cpf = strip e,
                  data_nascimento = strip ed\<rparr>],
         [msg_usuario_criado])" for en ed ee us
    using filtrar_None_iff [of "strip e" us] by (simp add: criar_usuario_def)
  have dup: "strip e \<in> cpf ` set us \<Longrightarrow>
      criar_usuario e en ed ee us = (us, [msg_cpf_existente])" for en ed ee us
    using filtrar_None_iff [of "strip e" us]
    by (auto simp: criar_usuario_def split: option.splits)
  have "strip e \<in> cpf ` set (fst (criar_usuario e en ed ee us))"
  proof (cases "strip e \<in> cpf ` set us")
    case True
    then show ?thesis by (simp add: dup)
  next
    case False
    then show ?thesis by (simp add: novo)
  qed
  then have "criar_usuario e en' ed' ee' (fst (criar_usuario e en ed ee us)) =
      (fst (criar_usuario e en ed ee us), [msg_cpf_existente])"
    by (rule dup)
  with novo dup show ?thesis
    by blast
qed

theorem criar_usuario_rejeita_duplicado_witness:
  "criar_usuario ''123'' ''Bia'' ''02-02-2002'' ''Rua 2'' [titular] =
     ([titular], [msg_cpf_existente]) \<and>
   length (fst (criar_usuario ''123'' ''Bia'' ''02-02-2002'' ''Rua 2'' [titular])) = 1 \<and>
   criar_usuario ''456'' ''Bia'' ''02-02-2002'' ''Rua 2'' [titular] =
     ([titular, \<lparr>nome = ''Bia'', endereco = ''Rua 2'', cpf = ''456'',
                  data_nascimento = ''02-02-2002''\<rparr>],
      [msg_usuario_criado])"
  using criar_usuario_rejeita_duplicado [where e = "''123''" and us = "[titular]"
      and en = "''Bia''" and ed = "''02-02-2002''" and ee = "''Rua 2''"]
    criar_usuario_rejeita_duplicado [where e = "''456''" and us = "[titular]"
      and en = "''Bia''" and ed = "''02-02-2002''" and ee = "''Rua 2''"]
  by (simp add: strip_def py_isspace_def titular_def)

text \<open>
  C8 as stated: a successful deposit appends \<open>Deposit: <amount to 2 decimals>\<close>, a
  two-decimal fixed-point text, and on a fresh account a deposit of 150.00 leaves the
  history \<open>["Deposit:\tR$ 150.00"]\<close>. The code's label is the Portuguese word, spelt
  with an accented o (\<open>CHR 0xF3\<close>) and ending in \<open>sito:\<close>, so the history is a different
  list; and a deposit of \<open>inf\<close> succeeds with the amount text \<open>inf\<close>, which has no
  decimals.
\<close>

theorem deposito_rotulo_counterexample:
  "fst (Deposito_executar (Finite 150) conta_nova) \<and>
   registros (historico (snd (Deposito_executar (Finite 150) conta_nova))) =
     [''Dep'' @ [CHR 0xF3] @ ''sito:'' @ [CHR 0x09] @ ''R$ 150.00''] \<and>
   registros (historico (snd (Deposito_executar (Finite 150) conta_nova))) \<noteq>
     [''Deposit:'' @ [CHR 0x09] @ ''R$ 150.00''] \<and>
   fst (Deposito_executar PInf conta_nova) \<and>
   registros (historico (snd (Deposito_executar PInf conta_nova))) =
     [''Dep'' @ [CHR 0xF3] @ ''sito:'' @ [CHR 0x09] @ ''R$ inf'']"
  by (simp add: conta_nova_def Conta_init_def Deposito_executar_def Deposito_descricao_def
      py_gt_def fmt2f_150 del: fmt2f.simps(5))

text \<open>
  C8 amended: a successful deposit of \<open>a\<close> appends the label of \<open>Deposito.descricao\<close>
  (the Portuguese word for deposit, a colon, a tab and \<open>R$\<close> with a space) followed
  by the text of \<open>a\<close>, a successful withdrawal \<open>"Saque:\t\tR$ "\<close> followed by the text
  of \<open>a\<close>. The text of a finite amount is an optional minus sign, one or more digits, a
  point and two digits, and the number the digits spell is within half a hundredth of
  the amount. On a fresh account a deposit of 150.00 succeeds and leaves the history
  with the one entry ending in \<open>R$ 150.00\<close>.
\<close>

theorem descricao_duas_casas:
  "(py_gt a (Finite 0) \<longrightarrow>
      registros (historico (snd (Deposito_executar a c))) =
        registros (historico c) @
          [''Dep'' @ [CHR 0xF3] @ ''sito:'' @ [CHR 0x09] @ ''R$ '' @ fmt2f a]) \<and>
   (fst (fst (Saque_executar a c)) \<longrightarrow>
      registros (historico (snd (Saque_executar a c))) =
        registros (historico c) @ [''Saque:'' @ [CHR 0x09, CHR 0x09] @ ''R$ '' @ fmt2f a]) \<and>
   (\<exists>ds d1 d2. fmt2f (Finite x) = (if x < 0 then ''-'' else []) @ ds @ ''.'' @ [d1, d2] \<and>
      ds \<noteq> [] \<and> set (ds @ [d1, d2]) \<subseteq> set ''0123456789'' \<and>
      \<bar>rat_of_nat (read_nat (ds @ [d1, d2])) / 100 - \<bar>x\<bar>\<bar> \<le> 1 / 200) \<and>
   Deposito_executar (Finite 150) (Conta_init ag n u (Finite 0) l ls) =
     (True, (Conta_init ag n u (Finite 0) l ls)
        \<lparr>saldo := Finite 150,
          historico := \<lparr>registros =
            [''Dep'' @ [CHR 0xF3] @ ''sito:'' @ [CHR 0x09] @ ''R$ 150.00'']\<rparr>\<rparr>)"
proof -
  have dep: "py_gt a (Finite 0) \<longrightarrow>
      registros (historico (snd (Deposito_executar a c))) =
        registros (historico c) @
          [''Dep'' @ [CHR 0xF3] @ ''sito:'' @ [CHR 0x09] @ ''R$ '' @ fmt2f a]"
    by (simp add: Deposito_executar_def Deposito_descricao_def)
  have saq: "fst (fst (Saque_executar a c)) \<longrightarrow>
      registros (historico (snd (Saque_executar a c))) =
        registros (historico c) @ [''Saque:'' @ [CHR 0x09, CHR 0x09] @ ''R$ '' @ fmt2f a]"
    by (simp add: Saque_executar_def Saque_descricao_def)
  have ex: "Deposito_executar (Finite 150) (Conta_init ag n u (Finite 0) l ls) =
     (True, (Conta_init ag n u (Finite 0) l ls)
        \<lparr>saldo := Finite 150,
          historico := \<lparr>registros =
            [''Dep'' @ [CHR 0xF3] @ ''sito:'' @ [CHR 0x09] @ ''R$ 150.00'']\<rparr>\<rparr>)"
    by (simp add: Conta_init_def Deposito_executar_def Deposito_descricao_def py_gt_def
        registrar_eq round_double_examples fmt2f_150 del: fmt2f.simps(5))
  from dep saq fmt2f_shape [of x] ex show ?thesis
    by blast
qed

theorem descricao_duas_casas_witness:
  "registros (historico (snd (Deposito_executar (Finite 150) conta_nova))) =
     [''Dep'' @ [CHR 0xF3] @ ''sito:'' @ [CHR 0x09] @ ''R$ 150.00''] \<and>
   registros (historico (snd (Saque_executar (Finite 100) conta_700))) =
     [''Saque:'' @ [CHR 0x09, CHR 0x09] @ ''R$ 100.00'']"
  using descricao_duas_casas [where a = "Finite 150" and c = conta_nova and x = 150
      and ag = "''0001''" and n = 1 and u = titular and l = "Finite 500" and ls = 3]
    descricao_duas_casas [where a = "Finite 100" and c = conta_700 and x = 100
      and ag = "''0001''" and n = 1 and u = titular and l = "Finite 500" and ls = 3]
  by (simp add: conta_nova_def conta_700_def Conta_init_def Saque_executar_def py_gt_def
      fmt2f_150 fmt2f_100 del: fmt2f.simps(5))

text \<open>
  C9 as stated: \<open>Historico.texto\<close> returns the lines joined with line separators,
  that is \<open>"\n".join(registros)\<close>. The code appends one more separator, so for two
  lines the two texts differ.
\<close>

theorem texto_junta_sem_terminar_counterexample:
  "texto \<lparr>registros = [''a'', ''b'']\<rparr> = ''a'' @ [CHR 0x0A] @ ''b'' @ [CHR 0x0A] \<and>
   str_join [CHR 0x0A] [''a'', ''b''] = ''a'' @ [CHR 0x0A] @ ''b'' \<and>
   texto \<lparr>registros = [''a'', ''b'']\<rparr> \<noteq> str_join [CHR 0x0A] [''a'', ''b'']"
  by (simp add: texto_def esta_vazio_def)

text \<open>
  C9 amended: \<open>Historico.texto\<close> returns the recorded lines in insertion order, each
  followed by a line separator (the lines joined by separators, and one separator
  after the last), and the empty string when the history is empty. It returns the text
  only: the history is an argument that is not returned changed.
\<close>

theorem texto_linhas_terminadas:
  "texto h = concat (map (\<lambda>l. l @ [CHR 0x0A]) (registros h)) \<and>
   (registros h = [] \<longrightarrow> texto h = []) \<and>
   (registros h \<noteq> [] \<longrightarrow> texto h = str_join [CHR 0x0A] (registros h) @ [CHR 0x0A])"
  by (simp add: texto_def esta_vazio_def str_join_terminado)

theorem texto_linhas_terminadas_witness:
  "texto \<lparr>registros = []\<rparr> = [] \<and>
   texto \<lparr>registros = [''a'', ''b'']\<rparr> = ''a'' @ [CHR 0x0A] @ ''b'' @ [CHR 0x0A]"
  using texto_linhas_terminadas [of "\<lparr>registros = []\<rparr>"]
    texto_linhas_terminadas [of "\<lparr>registros = [''a'', ''b'']\<rparr>"]
  by simp

text \<open>
  C10. The balance and ceiling comparisons of \<open>Saque.executar\<close> are strict. The
  ceiling of an account is the argument \<open>limite\<close> of \<open>Conta.__init__\<close>, which no call
  assigns afterwards; the one place that builds an account, \<open>criar_conta\<close>, leaves it
  at the default 500.0, so the ceiling of every account the program holds is 500.0
  after any run of transactions. For every account with such a ceiling (any ceiling but
  infinity) and every balance \<open>b\<close> with \<open>0 < b <= limite\<close> and a withdrawal count below
  its maximum, withdrawing \<open>b\<close>, the whole balance, succeeds and leaves the balance
  exactly 0.0. A withdrawal of exactly the ceiling is never rejected with
  \<open>excede_limite\<close>.
\<close>

theorem saque_do_saldo_inteiro:
  "(limite c \<noteq> PInf \<and> py_gt (saldo c) (Finite 0) \<and> py_le (saldo c) (limite c) \<and>
    numero_saques c < limite_saques c \<longrightarrow>
      Saque_executar (saldo c) c =
        ((True, None),
         c\<lparr>saldo := Finite 0, numero_saques := numero_saques c + 1,
           historico := \<lparr>registros = registros (historico c) @ [Saque_descricao (saldo c)]\<rparr>\<rparr>)) \<and>
   snd (fst (Saque_executar (limite c) c)) \<noteq> Some ''excede_limite'' \<and>
   (fst (criar_conta e ag n us) = Some c0 \<longrightarrow>
      limite (snd (executar_todas c0 ts)) = Finite 500 \<and>
      limite (snd (executar_todas c0 ts)) \<noteq> PInf)"
proof -
  have inteiro: "Saque_executar (saldo c) c =
        ((True, None),
         c\<lparr>saldo := Finite 0, numero_saques := numero_saques c + 1,
           historico := \<lparr>registros = registros (historico c) @ [Saque_descricao (saldo c)]\<rparr>\<rparr>)"
    if fin: "limite c \<noteq> PInf" and pos: "py_gt (saldo c) (Finite 0)"
      and le: "py_le (saldo c) (limite c)" and n: "numero_saques c < limite_saques c"
  proof -
    from pos le fin obtain x where x: "saldo c = Finite x" "0 < x"
      by (cases "saldo c"; cases "limite c") (auto simp: py_gt_def)
    then have "py_sub (saldo c) (saldo c) = Finite 0"
      by (simp add: py_sub_self)
    moreover have "\<not> py_le (saldo c) (Finite 0)"
      using pos by (rule py_gt_zero_not_le)
    moreover have "\<not> py_gt (saldo c) (saldo c)"
      by (simp add: py_gt_def py_lt_irrefl)
    moreover have "\<not> py_gt (saldo c) (limite c)"
      using le by (rule py_le_not_gt)
    ultimately show ?thesis
      using n by (simp add: Saque_executar_def registrar_eq)
  qed
  have teto: "snd (fst (Saque_executar (limite c) c)) \<noteq> Some ''excede_limite''"
    by (simp add: Saque_executar_def py_gt_def py_lt_irrefl)
  have aberta: "limite (snd (executar_todas c0 ts)) = Finite 500"
    if "fst (criar_conta e ag n us) = Some c0"
  proof -
    from that have "limite c0 = Finite 500"
      by (auto simp: criar_conta_def Conta_init_def split: option.splits)
    then show ?thesis
      by (simp add: limite_executar_todas)
  qed
  from inteiro teto aberta show ?thesis
    by simp
qed

theorem saque_do_saldo_inteiro_witness:
  "Saque_executar (Finite 500) (conta_700\<lparr>saldo := Finite 500\<rparr>) =
     ((True, None),
      conta_700\<lparr>saldo := Finite 0, numero_saques := 1,
        historico := \<lparr>registros = [Saque_descricao (Finite 500)]\<rparr>\<rparr>) \<and>
   fst (Saque_executar (Finite 500) conta_700) = (True, None) \<and>
   fst (criar_conta ''123'' ''0001'' 1 [titular]) = Some conta_nova \<and>
   limite (snd (executar_todas conta_nova
      [Deposito (Finite 150), Saque (Finite 100), Saque NaN])) = Finite 500"
  using saque_do_saldo_inteiro [where c = "conta_700\<lparr>saldo := Finite 500\<rparr>" and e = "''123''"
      and ag = "''0001''" and n = 1 and us = "[titular]" and ?c0.0 = conta_nova
      and ts = "[Deposito (Finite 150), Saque (Finite 100), Saque NaN]"]
    saque_do_saldo_inteiro [where c = conta_700]
  by (simp add: conta_nova_def conta_700_def Conta_init_def criar_conta_def strip_def
      py_isspace_def titular_def Saque_executar_def py_gt_def del: executar_todas.simps)

end
